theory Spec2Isabelle
  imports Main "HOL-Library.Sublist"
begin

section \<open>Python strings and the library calls of translate_names.py\<close>

text \<open>
  A Python \<open>str\<close> is a sequence of Unicode code points; it is modelled as a list of
  natural numbers, one per code point, so that \<open>length\<close>, slicing and \<open>find\<close> count what
  Python counts. ASCII literals of the source are written with \<open>ascii\<close>.
\<close>

type_synonym ustr = "nat list"

definition ascii :: "string \<Rightarrow> ustr" where
  "ascii s = map of_char s"

definition dash :: nat where "dash = 45"
definition dot :: nat where "dot = 46"
definition slash :: nat where "slash = 47"
definition underscore :: nat where "underscore = 95"

definition is_dash :: "nat \<Rightarrow> bool" where
  "is_dash c = (c = dash)"

text \<open>The character class of the source's patterns: the code points U+4E00 to U+9FFF.\<close>

definition is_chinese :: "nat \<Rightarrow> bool" where
  "is_chinese c = (0x4E00 \<le> c \<and> c \<le> 0x9FFF)"

text \<open>
  The whitespace class of \<open>str.strip()\<close> and of \<open>\s\<close> in a \<open>str\<close> pattern: the code points
  for which CPython's \<open>str.isspace\<close> holds.
\<close>

definition is_space :: "nat \<Rightarrow> bool" where
  "is_space c = ((0x09 \<le> c \<and> c \<le> 0x0D) \<or> (0x1C \<le> c \<and> c \<le> 0x20) \<or> c = 0x85 \<or> c = 0xA0
      \<or> c = 0x1680 \<or> (0x2000 \<le> c \<and> c \<le> 0x200A) \<or> c = 0x2028 \<or> c = 0x2029
      \<or> c = 0x202F \<or> c = 0x205F \<or> c = 0x3000)"

text \<open>
  The class \<open>\w\<close> of a \<open>str\<close> pattern: the underscore and every alphanumeric code point.
  On ASCII these are the letters and digits; beyond ASCII the Unicode database decides,
  which is taken as the parameter \<open>alnum\<close>.
\<close>

definition is_word :: "(nat \<Rightarrow> bool) \<Rightarrow> nat \<Rightarrow> bool" where
  "is_word alnum c =
     (c = underscore \<or>
      (if c < 128 then (48 \<le> c \<and> c \<le> 57) \<or> (65 \<le> c \<and> c \<le> 90) \<or> (97 \<le> c \<and> c \<le> 122)
       else alnum c))"

text \<open>\<open>s.strip(chars)\<close>: the characters of the class are removed at both ends.\<close>

definition py_strip :: "(nat \<Rightarrow> bool) \<Rightarrow> ustr \<Rightarrow> ustr" where
  "py_strip P s = rev (dropWhile P (rev (dropWhile P s)))"

text \<open>
  \<open>re.sub(r'[class]+', repl, s)\<close>: scanning left to right, every maximal run of characters
  of the class is replaced by \<open>repl\<close>.
\<close>

function re_sub_plus :: "(nat \<Rightarrow> bool) \<Rightarrow> ustr \<Rightarrow> ustr \<Rightarrow> ustr" where
  "re_sub_plus P repl [] = []"
| "re_sub_plus P repl (c # cs) =
     (if P c then repl @ re_sub_plus P repl (dropWhile P cs)
      else c # re_sub_plus P repl cs)"
  by pat_completeness auto
termination
  by (relation "measure (\<lambda>(P, repl, s). length s)")
     (auto simp: length_dropWhile_le less_Suc_eq_le)

text \<open>
  \<open>re.finditer(r'[class]+', text)\<close>, each match given as \<open>(m.group(), m.start(), m.end())\<close>;
  \<open>i\<close> is the offset of the text still to be scanned.
\<close>

function re_finditer_plus :: "(nat \<Rightarrow> bool) \<Rightarrow> nat \<Rightarrow> ustr \<Rightarrow> (ustr \<times> nat \<times> nat) list" where
  "re_finditer_plus P i [] = []"
| "re_finditer_plus P i (c # cs) =
     (if P c
      then (c # takeWhile P cs, i, i + Suc (length (takeWhile P cs)))
           # re_finditer_plus P (i + Suc (length (takeWhile P cs))) (dropWhile P cs)
      else re_finditer_plus P (Suc i) cs)"
  by pat_completeness auto
termination
  by (relation "measure (\<lambda>(P, i, s). length s)")
     (auto simp: length_dropWhile_le less_Suc_eq_le)

text \<open>
  \<open>s.find(sub, start)\<close> for \<open>start \<ge> 0\<close>: the least index \<open>\<ge> start\<close> at which \<open>sub\<close> occurs,
  \<open>None\<close> for Python's \<open>-1\<close>.
\<close>

function py_find :: "ustr \<Rightarrow> ustr \<Rightarrow> nat \<Rightarrow> nat option" where
  "py_find s sub start =
     (if length s < start + length sub then None
      else if take (length sub) (drop start s) = sub then Some start
      else py_find s sub (Suc start))"
  by pat_completeness auto
termination
  by (relation "measure (\<lambda>(s, sub, start). Suc (length s) - start)") auto

declare py_find.simps [simp del]

section \<open>Name clean-up of translate_name\<close>

text \<open>
  The two clean-up statements of \<open>translate_name\<close>:
  \<open>re.sub(r'-+', '-', translated_stem)\<close> and then \<open>.strip('-')\<close>.
\<close>

definition normalize :: "ustr \<Rightarrow> ustr" where
  "normalize translated_stem = py_strip is_dash (re_sub_plus is_dash [dash] translated_stem)"

section \<open>The translator and its failures\<close>

text \<open>
  \<open>translator.translate\<close> is the external Argos translator: a function from the text it is
  given to the text it returns, \<open>None\<close> when the call raises. \<open>unicode_alnum\<close> is the
  alphanumeric table of the Unicode database beyond ASCII, read by \<open>\w\<close>.
\<close>

datatype error = TranslationError | FilesystemError | UsageError

record env =
  translate :: "ustr \<Rightarrow> ustr option"
  unicode_alnum :: "nat \<Rightarrow> bool"

text \<open>
  A computation that calls the translator returns its outcome together with the texts it
  has sent to the translator, in the order of the calls. An exception ends the
  computation; the calls made so far stay in the trace.
\<close>

type_synonym 'a traced = "(error + 'a) \<times> ustr list"

definition done_with :: "'a \<Rightarrow> 'a traced" where
  "done_with x = (Inr x, [])"

definition and_then :: "'a traced \<Rightarrow> ('a \<Rightarrow> 'b traced) \<Rightarrow> 'b traced" where
  "and_then m f =
     (case m of
        (Inl e, calls) \<Rightarrow> (Inl e, calls)
      | (Inr x, calls) \<Rightarrow> (case f x of (r, calls') \<Rightarrow> (r, calls @ calls')))"

section \<open>contains_chinese and extract_chinese_segments\<close>

definition contains_chinese :: "ustr \<Rightarrow> bool" where
  "contains_chinese text = list_ex is_chinese text"

definition extract_chinese_segments :: "ustr \<Rightarrow> (ustr \<times> nat \<times> nat) list" where
  "extract_chinese_segments text = re_finditer_plus is_chinese 0 text"

section \<open>translate_remaining_chinese\<close>

text \<open>
  The three statements applied to what the translator returns: \<open>strip()\<close>,
  \<open>re.sub(r'\s+', '-', _)\<close> and \<open>re.sub(r'[^\w\-.]', '', _)\<close>.
\<close>

definition clean_translation :: "(nat \<Rightarrow> bool) \<Rightarrow> ustr \<Rightarrow> ustr" where
  "clean_translation alnum translated =
     filter (\<lambda>c. is_word alnum c \<or> c = dash \<or> c = dot)
       (re_sub_plus is_space [dash] (py_strip is_space translated))"

text \<open>
  The loop \<open>for chinese, start, end in reversed(segments)\<close>; its argument is the list
  already reversed. \<open>result[:start] + translated + result[end:]\<close> are \<open>take\<close> and \<open>drop\<close>.
\<close>

fun substitute_segments :: "env \<Rightarrow> (ustr \<times> nat \<times> nat) list \<Rightarrow> ustr \<Rightarrow> ustr traced" where
  "substitute_segments E [] result = done_with result"
| "substitute_segments E ((chinese, start, end') # segments) result =
     (case translate E chinese of
        None \<Rightarrow> (Inl TranslationError, [chinese])
      | Some translated \<Rightarrow>
          and_then (Inr (), [chinese])
            (\<lambda>_. substitute_segments E segments
                   (take start result @ clean_translation (unicode_alnum E) translated
                    @ drop end' result)))"

definition translate_remaining_chinese :: "env \<Rightarrow> ustr \<Rightarrow> ustr traced" where
  "translate_remaining_chinese E text =
     (let segments = extract_chinese_segments text
      in if segments = [] then done_with text
         else substitute_segments E (rev segments) text)"

section \<open>translate_with_dictionary\<close>

text \<open>
  \<open>DSP_DICTIONARY\<close>, in the order of the source. A \<open>dict\<close> keeps insertion order and the
  keys of the literal are distinct, so the dictionary is the list of its items. The list is
  written section by section, under the headings of the source's comments (the longer
  sections in numbered parts).
\<close>

definition natural_resources_1 :: "(ustr \<times> ustr) list" where
  "natural_resources_1 = [
    ([0x94C1, 0x77FF], ascii ''Iron-Ore''),
    ([0x94DC, 0x77FF], ascii ''Copper-Ore''),
    ([0x77F3, 0x77FF], ascii ''Stone''),
    ([0x7164, 0x77FF], ascii ''Coal''),
    ([0x7164], ascii ''Coal''),
    ([0x7845, 0x77F3], ascii ''Silicon-Ore''),
    ([0x949B, 0x77FF], ascii ''Titanium-Ore''),
    ([0x6C34], ascii ''Water''),
    ([0x539F, 0x6CB9], ascii ''Crude-Oil'')]"

definition natural_resources_2 :: "(ustr \<times> ustr) list" where
  "natural_resources_2 = [
    ([0x6C22], ascii ''Hydrogen''),
    ([0x91CD, 0x6C22], ascii ''Deuterium''),
    ([0x6C18], ascii ''Deuterium''),
    ([0x53CD, 0x7269, 0x8D28], ascii ''Antimatter''),
    ([0x4E34, 0x754C, 0x5149, 0x5B50], ascii ''Critical-Photon''),
    ([0x6838, 0x5FC3, 0x7D20], ascii ''Core-Element''),
    ([0x91D1, 0x4F2F, 0x5229, 0x77FF, 0x77F3], ascii ''Kimberlite-Ore''),
    ([0x53EF, 0x71C3, 0x51B0], ascii ''Fire-Ice''),
    ([0x6728, 0x6750], ascii ''Log'')]"

definition natural_resources_3 :: "(ustr \<times> ustr) list" where
  "natural_resources_3 = [
    ([0x6709, 0x673A, 0x6676, 0x4F53], ascii ''Organic-Crystal''),
    ([0x690D, 0x7269, 0x71C3, 0x6599], ascii ''Plant-Fuel''),
    ([0x786B, 0x9178], ascii ''Sulfuric-Acid''),
    ([0x5355, 0x6781, 0x78C1, 0x77F3], ascii ''Unipolar-Magnet''),
    ([0x5149, 0x6805, 0x77F3], ascii ''Grating-Crystal''),
    ([0x523A, 0x7B0B, 0x7ED3, 0x6676], ascii ''Spiniform-Stalagmite-Crystal''),
    ([0x523A, 0x7B0B], ascii ''Spiniform-Stalagmite''),
    ([0x5206, 0x5F62, 0x7845, 0x77F3], ascii ''Fractal-Silicon'')]"

definition intermediate_products_1 :: "(ustr \<times> ustr) list" where
  "intermediate_products_1 = [
    ([0x94C1, 0x5757], ascii ''Iron-Ingot''),
    ([0x94DC, 0x5757], ascii ''Copper-Ingot''),
    ([0x77F3, 0x6750], ascii ''Stone-Brick''),
    ([0x9AD8, 0x80FD, 0x77F3, 0x58A8], ascii ''Energetic-Graphite''),
    ([0x9AD8, 0x7EAF, 0x7845, 0x5757], ascii ''High-Purity-Silicon''),
    ([0x6676, 0x683C, 0x7845], ascii ''High-Purity-Silicon''),
    ([0x949B, 0x5757], ascii ''Titanium-Ingot''),
    ([0x949B, 0x5408, 0x91D1], ascii ''Titanium-Alloy''),
    ([0x7CBE, 0x70BC, 0x6CB9], ascii ''Refined-Oil''),
    ([0x94A2, 0x6750], ascii ''Steel''),
    ([0x7535, 0x8DEF, 0x677F], ascii ''Circuit-Board'')]"

definition intermediate_products_2 :: "(ustr \<times> ustr) list" where
  "intermediate_products_2 = [
    ([0x68F1, 0x955C], ascii ''Prism''),
    ([0x7535, 0x52A8, 0x673A], ascii ''Electric-Motor''),
    ([0x5FAE, 0x6676, 0x5143, 0x4EF6], ascii ''Microcrystalline-Component''),
    ([0x949B, 0x6676, 0x77F3], ascii ''Titanium-Crystal''),
    ([0x78B3, 0x7EB3, 0x7C73, 0x7BA1], ascii ''Carbon-Nanotube''),
    ([0x7C92, 0x5B50, 0x5BBD, 0x5E26], ascii ''Particle-Broadband''),
    ([0x9F7F, 0x8F6E], ascii ''Gear''),
    ([0x7B49, 0x79BB, 0x5B50, 0x6FC0, 0x53D1, 0x5668], ascii ''Plasma-Exciter''),
    ([0x5149, 0x5B50, 0x5408, 0x5E76, 0x5668], ascii ''Photon-Combiner''),
    ([0x7535, 0x78C1, 0x6DA1, 0x8F6E], ascii ''Electromagnetic-Turbine''),
    ([0x5904, 0x7406, 0x5668], ascii ''Processor'')]"

definition intermediate_products_3 :: "(ustr \<times> ustr) list" where
  "intermediate_products_3 = [
    ([0x5361, 0x897F, 0x7C73, 0x5C14, 0x6676, 0x4F53], ascii ''Casimir-Crystal''),
    ([0x949B, 0x5316, 0x73BB, 0x7483], ascii ''Titanium-Glass''),
    ([0x4F4D, 0x9762, 0x8FC7, 0x6EE4, 0x5668], ascii ''Plane-Filter''),
    ([0x91CF, 0x5B50, 0x82AF, 0x7247], ascii ''Quantum-Chip''),
    ([0x5F15, 0x64CE], ascii ''Engine''),
    ([0x63A8, 0x8FDB, 0x5668], ascii ''Thruster''),
    ([0x52A0, 0x529B, 0x63A8, 0x8FDB, 0x5668], ascii ''Reinforced-Thruster''),
    ([0x8D85, 0x7EA7, 0x78C1, 0x573A, 0x73AF], ascii ''Super-Magnetic-Ring''),
    ([0x7C92, 0x5B50, 0x5BB9, 0x5668], ascii ''Particle-Container''),
    ([0x5947, 0x5F02, 0x7269, 0x8D28], ascii ''Strange-Matter''),
    ([0x73BB, 0x7483], ascii ''Glass'')]"

definition intermediate_products_4 :: "(ustr \<times> ustr) list" where
  "intermediate_products_4 = [
    ([0x78C1, 0x94C1], ascii ''Magnet''),
    ([0x78C1, 0x7EBF, 0x5708], ascii ''Magnetic-Coil''),
    ([0x91D1, 0x521A, 0x77F3], ascii ''Diamond''),
    ([0x77F3, 0x58A8, 0x70EF], ascii ''Graphene''),
    ([0x7845, 0x57FA, 0x795E, 0x7ECF, 0x5143], ascii ''Silicon-based-Neuron''),
    ([0x7269, 0x8D28, 0x91CD, 0x7EC4, 0x5668], ascii ''Matter-Recombinator''),
    ([0x80FD, 0x91CF, 0x788E, 0x7247], ascii ''Energy-Shard''),
    ([0x8D1F, 0x71B5, 0x5947, 0x70B9], ascii ''Negentropy-Singularity'')]"

definition proliferators :: "(ustr \<times> ustr) list" where
  "proliferators = [
    ([0x589E, 0x4EA7, 0x5242], ascii ''Proliferator'')]"

definition logistics_items :: "(ustr \<times> ustr) list" where
  "logistics_items = [
    ([0x7269, 0x6D41, 0x8FD0, 0x8F93, 0x673A], ascii ''Logistics-Bot''),
    ([0x7269, 0x6D41, 0x8FD0, 0x8F93, 0x8239], ascii ''Logistics-Vessel''),
    ([0x661F, 0x9645, 0x7269, 0x6D41, 0x8FD0, 0x8F93, 0x8239], ascii ''Logistics-Vessel''),
    ([0x7A7A, 0x95F4, 0x7FD8, 0x66F2, 0x5668], ascii ''Space-Warper''),
    ([0x7FD8, 0x66F2, 0x5668], ascii ''Space-Warper''),
    ([0x5F15, 0x529B, 0x900F, 0x955C], ascii ''Graviton-Lens''),
    ([0x5730, 0x57FA], ascii ''Foundation'')]"

definition dyson_sphere_components :: "(ustr \<times> ustr) list" where
  "dyson_sphere_components = [
    ([0x592A, 0x9633, 0x5E06], ascii ''Solar-Sail''),
    ([0x6846, 0x67B6, 0x6750, 0x6599], ascii ''Frame-Material''),
    ([0x6234, 0x68EE, 0x7403, 0x7EC4, 0x4EF6], ascii ''Dyson-Sphere-Component''),
    ([0x5C0F, 0x578B, 0x8FD0, 0x8F7D, 0x706B, 0x7BAD], ascii ''Small-Carrier-Rocket''),
    ([0x8FD0, 0x8F7D, 0x706B, 0x7BAD], ascii ''Carrier-Rocket''),
    ([0x6234, 0x68EE, 0x7403], ascii ''Dyson-Sphere'')]"

definition fuel_rods :: "(ustr \<times> ustr) list" where
  "fuel_rods = [
    ([0x6C22, 0x71C3, 0x6599, 0x68D2], ascii ''Hydrogen-Fuel-Rod''),
    ([0x6DB2, 0x6C22, 0x71C3, 0x6599, 0x68D2], ascii ''Hydrogen-Fuel-Rod''),
    ([0x6C18, 0x6838, 0x71C3, 0x6599, 0x68D2], ascii ''Deuteron-Fuel-Rod''),
    ([0x53CD, 0x7269, 0x8D28, 0x71C3, 0x6599, 0x68D2], ascii ''Antimatter-Fuel-Rod''),
    ([0x5947, 0x5F02, 0x6E6E, 0x706D, 0x71C3, 0x6599, 0x68D2], ascii ''Strange-Annihilation-Fuel-Rod''),
    ([0x71C3, 0x6599, 0x68D2], ascii ''Fuel-Rod'')]"

definition science_matrices_1 :: "(ustr \<times> ustr) list" where
  "science_matrices_1 = [
    ([0x7535, 0x78C1, 0x77E9, 0x9635], ascii ''Electromagnetic-Matrix''),
    ([0x80FD, 0x91CF, 0x77E9, 0x9635], ascii ''Energy-Matrix''),
    ([0x7ED3, 0x6784, 0x77E9, 0x9635], ascii ''Structure-Matrix''),
    ([0x4FE1, 0x606F, 0x77E9, 0x9635], ascii ''Information-Matrix''),
    ([0x5F15, 0x529B, 0x77E9, 0x9635], ascii ''Gravity-Matrix''),
    ([0x5B87, 0x5B99, 0x77E9, 0x9635], ascii ''Universe-Matrix''),
    ([0x9ED1, 0x96FE, 0x77E9, 0x9635], ascii ''Dark-Fog-Matrix''),
    ([0x77E9, 0x9635], ascii ''Matrix'')]"

definition science_matrices_2 :: "(ustr \<times> ustr) list" where
  "science_matrices_2 = [
    ([0x84DD, 0x7CD6], ascii ''Electromagnetic-Matrix''),
    ([0x7EA2, 0x7CD6], ascii ''Energy-Matrix''),
    ([0x9EC4, 0x7CD6], ascii ''Structure-Matrix''),
    ([0x7D2B, 0x7CD6], ascii ''Information-Matrix''),
    ([0x7EFF, 0x7CD6], ascii ''Gravity-Matrix''),
    ([0x767D, 0x7CD6], ascii ''Universe-Matrix''),
    ([0x5F69, 0x7CD6], ascii ''Science-Matrix'')]"

definition power_buildings_1 :: "(ustr \<times> ustr) list" where
  "power_buildings_1 = [
    ([0x7279, 0x65AF, 0x62C9, 0x5854], ascii ''Tesla-Tower''),
    ([0x65E0, 0x7EBF, 0x8F93, 0x7535, 0x5854], ascii ''Wireless-Power-Tower''),
    ([0x8F93, 0x7535, 0x5854], ascii ''Power-Tower''),
    ([0x536B, 0x661F, 0x914D, 0x7535, 0x7AD9], ascii ''Satellite-Substation''),
    ([0x98CE, 0x529B, 0x6DA1, 0x8F6E, 0x673A], ascii ''Wind-Turbine''),
    ([0x98CE, 0x7535], ascii ''Wind-Turbine''),
    ([0x98CE, 0x80FD], ascii ''Wind-Power''),
    ([0x706B, 0x529B, 0x53D1, 0x7535, 0x5382], ascii ''Thermal-Power-Plant''),
    ([0x706B, 0x529B, 0x53D1, 0x7535], ascii ''Thermal-Power'')]"

definition power_buildings_2 :: "(ustr \<times> ustr) list" where
  "power_buildings_2 = [
    ([0x706B, 0x7535], ascii ''Thermal-Power''),
    ([0x706B, 0x529B], ascii ''Thermal-Power''),
    ([0x592A, 0x9633, 0x80FD, 0x677F], ascii ''Solar-Panel''),
    ([0x592A, 0x9633, 0x80FD], ascii ''Solar-Power''),
    ([0x5730, 0x70ED, 0x53D1, 0x7535, 0x7AD9], ascii ''Geothermal-Power-Station''),
    ([0x5730, 0x70ED, 0x53D1, 0x7535], ascii ''Geothermal-Power''),
    ([0x5FAE, 0x578B, 0x805A, 0x53D8, 0x53D1, 0x7535, 0x7AD9], ascii ''Mini-Fusion-Power-Station''),
    ([0x805A, 0x53D8, 0x53D1, 0x7535], ascii ''Fusion-Power''),
    ([0x6838, 0x7535], ascii ''Nuclear-Power'')]"

definition power_buildings_3 :: "(ustr \<times> ustr) list" where
  "power_buildings_3 = [
    ([0x80FD, 0x91CF, 0x67A2, 0x7EBD], ascii ''Energy-Exchanger''),
    ([0x84C4, 0x7535, 0x5668], ascii ''Accumulator''),
    ([0x6EE1, 0x84C4, 0x7535, 0x5668], ascii ''Full-Accumulator''),
    ([0x5C04, 0x7EBF, 0x63A5, 0x6536, 0x7AD9], ascii ''Ray-Receiver''),
    ([0x4EBA, 0x9020, 0x6052, 0x661F], ascii ''Artificial-Star''),
    ([0x5C0F, 0x592A, 0x9633], ascii ''Artificial-Star''),
    ([0x53D1, 0x7535], ascii ''Power-Generation'')]"

definition logistics_buildings_1 :: "(ustr \<times> ustr) list" where
  "logistics_buildings_1 = [
    ([0x4F20, 0x9001, 0x5E26], ascii ''Conveyor-Belt''),
    ([0x56DB, 0x5411, 0x5206, 0x6D41, 0x5668], ascii ''Splitter''),
    ([0x5206, 0x6D41, 0x5668], ascii ''Splitter''),
    ([0x81EA, 0x52A8, 0x96C6, 0x88C5, 0x673A], ascii ''Automatic-Piler''),
    ([0x6D41, 0x901F, 0x76D1, 0x6D4B, 0x5668], ascii ''Traffic-Monitor''),
    ([0x6D41, 0x901F, 0x8BA1], ascii ''Traffic-Monitor''),
    ([0x50A8, 0x7269, 0x4ED3], ascii ''Storage''),
    ([0x7BB1, 0x5B50], ascii ''Storage''),
    ([0x4ED3, 0x50A8], ascii ''Storage''),
    ([0x50A8, 0x6DB2, 0x7F50], ascii ''Storage-Tank'')]"

definition logistics_buildings_2 :: "(ustr \<times> ustr) list" where
  "logistics_buildings_2 = [
    ([0x7269, 0x6D41, 0x914D, 0x9001, 0x5668], ascii ''Logistics-Distributor''),
    ([0x884C, 0x661F, 0x5185, 0x7269, 0x6D41, 0x8FD0, 0x8F93, 0x7AD9], ascii ''Planetary-Logistics-Station''),
    ([0x661F, 0x9645, 0x7269, 0x6D41, 0x8FD0, 0x8F93, 0x7AD9], ascii ''Interstellar-Logistics-Station''),
    ([0x7269, 0x6D41, 0x5854], ascii ''Logistics-Station''),
    ([0x7269, 0x6D41, 0x7AD9], ascii ''Logistics-Station''),
    ([0x8F68, 0x9053, 0x91C7, 0x96C6, 0x5668], ascii ''Orbital-Collector''),
    ([0x5206, 0x62E3, 0x5668], ascii ''Sorter''),
    ([0x96C6, 0x88C5, 0x5206, 0x62E3, 0x5668], ascii ''Pile-Sorter''),
    ([0x5145, 0x7535], ascii ''Charging'')]"

definition resource_extraction :: "(ustr \<times> ustr) list" where
  "resource_extraction = [
    ([0x91C7, 0x77FF, 0x673A], ascii ''Mining-Machine''),
    ([0x5927, 0x578B, 0x91C7, 0x77FF, 0x673A], ascii ''Advanced-Mining-Machine''),
    ([0x77FF, 0x673A], ascii ''Mining-Machine''),
    ([0x91C7, 0x77FF], ascii ''Mining''),
    ([0x62BD, 0x6C34, 0x7AD9], ascii ''Water-Pump''),
    ([0x62BD, 0x6C34, 0x673A], ascii ''Water-Pump''),
    ([0x539F, 0x6CB9, 0x8403, 0x53D6, 0x7AD9], ascii ''Oil-Extractor''),
    ([0x539F, 0x6CB9, 0x7CBE, 0x70BC, 0x5382], ascii ''Oil-Refinery''),
    ([0x5206, 0x998F, 0x5854], ascii ''Fractionator''),
    ([0x5206, 0x998F], ascii ''Fractionation'')]"

definition production_buildings_1 :: "(ustr \<times> ustr) list" where
  "production_buildings_1 = [
    ([0x7535, 0x5F27, 0x7194, 0x7089], ascii ''Arc-Smelter''),
    ([0x7194, 0x7089], ascii ''Smelter''),
    ([0x4F4D, 0x9762, 0x7194, 0x7089], ascii ''Plane-Smelter''),
    ([0x8D1F, 0x71B5, 0x7194, 0x7089], ascii ''Negentropy-Smelter''),
    ([0x5236, 0x9020, 0x53F0], ascii ''Assembling-Machine''),
    ([0x91CD, 0x7EC4, 0x5F0F, 0x5236, 0x9020, 0x53F0], ascii ''Re-composing-Assembler''),
    ([0x77E9, 0x9635, 0x7814, 0x7A76, 0x7AD9], ascii ''Matrix-Lab'')]"

definition production_buildings_2 :: "(ustr \<times> ustr) list" where
  "production_buildings_2 = [
    ([0x7814, 0x7A76, 0x7AD9], ascii ''Lab''),
    ([0x81EA, 0x6F14, 0x5316, 0x7814, 0x7A76, 0x7AD9], ascii ''Self-evolution-Lab''),
    ([0x55B7, 0x6D82, 0x673A], ascii ''Spray-Coater''),
    ([0x5316, 0x5DE5, 0x5382], ascii ''Chemical-Plant''),
    ([0x91CF, 0x5B50, 0x5316, 0x5DE5, 0x5382], ascii ''Quantum-Chemical-Plant''),
    ([0x5FAE, 0x578B, 0x7C92, 0x5B50, 0x5BF9, 0x649E, 0x673A], ascii ''Miniature-Particle-Collider''),
    ([0x7C92, 0x5B50, 0x5BF9, 0x649E, 0x673A], ascii ''Particle-Collider'')]"

definition military_buildings_1 :: "(ustr \<times> ustr) list" where
  "military_buildings_1 = [
    ([0x7535, 0x78C1, 0x8F68, 0x9053, 0x5F39, 0x5C04, 0x5668], ascii ''EM-Rail-Ejector''),
    ([0x5F39, 0x5C04, 0x5668], ascii ''EM-Rail-Ejector''),
    ([0x5782, 0x76F4, 0x53D1, 0x5C04, 0x4E95], ascii ''Vertical-Launching-Silo''),
    ([0x53D1, 0x5C04, 0x4E95], ascii ''Launching-Silo''),
    ([0x9AD8, 0x65AF, 0x673A, 0x67AA, 0x5854], ascii ''Gauss-Turret''),
    ([0x5BFC, 0x5F39, 0x9632, 0x5FA1, 0x5854], ascii ''Missile-Turret''),
    ([0x805A, 0x7206, 0x52A0, 0x519C, 0x70AE], ascii ''Implosion-Cannon'')]"

definition military_buildings_2 :: "(ustr \<times> ustr) list" where
  "military_buildings_2 = [
    ([0x6FC0, 0x5149, 0x5854], ascii ''Laser-Turret''),
    ([0x7B49, 0x79BB, 0x5B50, 0x70AE, 0x5854], ascii ''Plasma-Turret''),
    ([0x6218, 0x573A, 0x5206, 0x6790, 0x57FA, 0x7AD9], ascii ''Battlefield-Analysis-Base''),
    ([0x5E72, 0x6270, 0x5854], ascii ''Jammer-Tower''),
    ([0x4FE1, 0x53F7, 0x5854], ascii ''Signal-Tower''),
    ([0x884C, 0x661F, 0x62A4, 0x76FE, 0x53D1, 0x751F, 0x5668], ascii ''Planetary-Shield-Generator''),
    ([0x9ED1, 0x96FE], ascii ''Dark-Fog'')]"

definition game_terms_1 :: "(ustr \<times> ustr) list" where
  "game_terms_1 = [
    ([0x84DD, 0x56FE], ascii ''Blueprint''),
    ([0x84DD, 0x56FE, 0x5305], ascii ''Blueprint-Book''),
    ([0x65B0, 0x84DD, 0x56FE], ascii ''New-Blueprint''),
    ([0x5F00, 0x8352], ascii ''Early-Game''),
    ([0x524D, 0x671F], ascii ''Early-Game''),
    ([0x4E2D, 0x671F], ascii ''Mid-Game''),
    ([0x540E, 0x671F], ascii ''Late-Game''),
    ([0x5927, 0x540E, 0x671F], ascii ''End-Game''),
    ([0x5168, 0x6D41, 0x7A0B], ascii ''Full-Playthrough''),
    ([0x5168, 0x7403], ascii ''Global''),
    ([0x8D64, 0x9053], ascii ''Equator'')]"

definition game_terms_2 :: "(ustr \<times> ustr) list" where
  "game_terms_2 = [
    ([0x6781, 0x5730], ascii ''Polar''),
    ([0x5806, 0x53E0], ascii ''Stacked''),
    ([0x65E0, 0x5E26], ascii ''Belt-Free''),
    ([0x6709, 0x5E26], ascii ''With-Belt''),
    ([0x9ED1, 0x76D2], ascii ''Black-Box''),
    ([0x8D85, 0x5E02], ascii ''Mall''),
    ([0x5EFA, 0x7B51, 0x8D85, 0x5E02], ascii ''Building-Mall''),
    ([0x539F, 0x77FF], ascii ''Raw-Ore''),
    ([0x6A21, 0x7EC4], ascii ''Mod''),
    ([0x6A21, 0x5757], ascii ''Module''),
    ([0x827A, 0x672F], ascii ''Art'')]"

definition game_terms_3 :: "(ustr \<times> ustr) list" where
  "game_terms_3 = [
    ([0x97F3, 0x4E50], ascii ''Music''),
    ([0x8FC7, 0x671F], ascii ''Expired''),
    ([0x4ED9, 0x672F], ascii ''Exploit''),
    ([0x5783, 0x573E, 0x6876], ascii ''Garbage-Disposal''),
    ([0x5176, 0x5B83], ascii ''Other''),
    ([0x5176, 0x4ED6], ascii ''Other''),
    ([0x8BF4, 0x660E], ascii ''Instructions''),
    ([0x7B80, 0x4ECB], ascii ''Introduction''),
    ([0x6CE8, 0x91CA], ascii ''Notes''),
    ([0x4F7F, 0x7528], ascii ''Usage''),
    ([0x4EA7, 0x91CF], ascii ''Output'')]"

definition game_terms_4 :: "(ustr \<times> ustr) list" where
  "game_terms_4 = [
    ([0x5C42], ascii ''Layer''),
    ([0x7248, 0x672C], ascii ''Version''),
    ([0x8282, 0x70B9], ascii ''Node''),
    ([0x6700, 0x5BC6], ascii ''Densest''),
    ([0x6781, 0x5BC6], ascii ''Ultra-Dense''),
    ([0x5BC6, 0x94FA], ascii ''Dense-Tile''),
    ([0x53EF, 0x6269, 0x5C55], ascii ''Expandable''),
    ([0x4F4E, 0x7EAC, 0x5EA6], ascii ''Low-Latitude''),
    ([0x9AD8, 0x7EAC, 0x5EA6], ascii ''High-Latitude''),
    ([0x5206, 0x5E03, 0x5F0F], ascii ''Distributed''),
    ([0x914D, 0x5957], ascii ''Supporting'')]"

definition game_terms_5 :: "(ustr \<times> ustr) list" where
  "game_terms_5 = [
    ([0x8BBE, 0x65BD], ascii ''Facilities''),
    ([0x5EFA, 0x9020], ascii ''Construction''),
    ([0x751F, 0x4EA7], ascii ''Production''),
    ([0x5236, 0x9020], ascii ''Manufacturing''),
    ([0x53D1, 0x5C04], ascii ''Launch''),
    ([0x900F, 0x955C], ascii ''Lens''),
    ([0x9505, 0x76D6], ascii ''Ray-Receiver'')]"

definition DSP_DICTIONARY :: "(ustr \<times> ustr) list" where
  "DSP_DICTIONARY =
     natural_resources_1 @ natural_resources_2 @ natural_resources_3 @ intermediate_products_1
     @ intermediate_products_2 @ intermediate_products_3 @ intermediate_products_4 @ proliferators
     @ logistics_items @ dyson_sphere_components @ fuel_rods @ science_matrices_1
     @ science_matrices_2 @ power_buildings_1 @ power_buildings_2 @ power_buildings_3
     @ logistics_buildings_1 @ logistics_buildings_2 @ resource_extraction @ production_buildings_1
     @ production_buildings_2 @ military_buildings_1 @ military_buildings_2 @ game_terms_1
     @ game_terms_2 @ game_terms_3 @ game_terms_4 @ game_terms_5"

lemmas DSP_sections =
  natural_resources_1_def natural_resources_2_def natural_resources_3_def intermediate_products_1_def
  intermediate_products_2_def intermediate_products_3_def intermediate_products_4_def proliferators_def
  logistics_items_def dyson_sphere_components_def fuel_rods_def science_matrices_1_def
  science_matrices_2_def power_buildings_1_def power_buildings_2_def power_buildings_3_def
  logistics_buildings_1_def logistics_buildings_2_def resource_extraction_def production_buildings_1_def
  production_buildings_2_def military_buildings_1_def military_buildings_2_def game_terms_1_def
  game_terms_2_def game_terms_3_def game_terms_4_def game_terms_5_def

text \<open>
  \<open>sorted(DSP_DICTIONARY.keys(), key=len, reverse=True)\<close>, each key kept with its value
  (the loop reads \<open>DSP_DICTIONARY[term]\<close>). A reversed sort is stable: CPython reverses the
  list, sorts it ascending and stably, and reverses the result.
\<close>

definition sorted_terms :: "(ustr \<times> ustr) list \<Rightarrow> (ustr \<times> ustr) list" where
  "sorted_terms D = rev (sort_key (\<lambda>(term, replacement). length term) (rev D))"

text \<open>A matched range is \<open>(start, end, replacement)\<close>.\<close>

type_synonym span = "nat \<times> nat \<times> ustr"

definition overlaps :: "nat \<Rightarrow> nat \<Rightarrow> span list \<Rightarrow> bool" where
  "overlaps idx end' matched_ranges =
     list_ex (\<lambda>(m_start, m_end, _). \<not> (end' \<le> m_start \<or> idx \<ge> m_end)) matched_ranges"

lemma py_find_bounds: "py_find s sub start = Some idx \<Longrightarrow> start \<le> idx \<and> idx + length sub \<le> length s"
proof (induction s sub start rule: py_find.induct)
  case (1 s sub start)
  then show ?case
    by (subst (asm) (2) py_find.simps) (auto split: if_splits)
qed

text \<open>The \<open>while True\<close> loop of one term, from the search position \<open>start\<close>.\<close>

function scan_term :: "ustr \<Rightarrow> ustr \<Rightarrow> ustr \<Rightarrow> nat \<Rightarrow> span list \<Rightarrow> span list" where
  "scan_term result term replacement start matched_ranges =
     (case py_find result term start of
        None \<Rightarrow> matched_ranges
      | Some idx \<Rightarrow>
          scan_term result term replacement (Suc idx)
            (if overlaps idx (idx + length term) matched_ranges then matched_ranges
             else matched_ranges @ [(idx, idx + length term, replacement)]))"
  by pat_completeness auto
termination
proof (relation "measure (\<lambda>(result, term, replacement, start, matched_ranges). Suc (length result) - start)")
  show "wf (measure (\<lambda>(result, term, replacement, start, matched_ranges). Suc (length result) - start))"
    by simp
next
  fix result "term" replacement :: ustr and start idx :: nat and matched_ranges :: "span list"
  assume "py_find result term start = Some idx"
  then have "start \<le> idx \<and> idx + length term \<le> length result"
    by (rule py_find_bounds)
  then show "((result, term, replacement, Suc idx,
               if overlaps idx (idx + length term) matched_ranges then matched_ranges
               else matched_ranges @ [(idx, idx + length term, replacement)]),
              (result, term, replacement, start, matched_ranges))
             \<in> measure (\<lambda>(result, term, replacement, start, matched_ranges). Suc (length result) - start)"
    by simp arith
qed

declare scan_term.simps [simp del]

text \<open>The first pass, \<open>for term in sorted_terms\<close>, and the sort of the matches by position.\<close>

definition first_pass :: "(ustr \<times> ustr) list \<Rightarrow> ustr \<Rightarrow> span list" where
  "first_pass D result =
     foldl (\<lambda>matched_ranges (term, replacement). scan_term result term replacement 0 matched_ranges)
       [] (sorted_terms D)"

definition match_spans :: "(ustr \<times> ustr) list \<Rightarrow> ustr \<Rightarrow> span list" where
  "match_spans D result = sort_key (\<lambda>(start, end', replacement). start) (first_pass D result)"

text \<open>
  The text of a gap: translated when it contains Chinese, and appended to \<open>parts\<close> unless
  the gap is empty.
\<close>

definition append_gap :: "env \<Rightarrow> ustr list \<Rightarrow> ustr \<Rightarrow> (ustr list) traced" where
  "append_gap E parts gap =
     (if gap = [] then done_with parts
      else if contains_chinese gap
      then and_then (translate_remaining_chinese E gap) (\<lambda>t. done_with (parts @ [t]))
      else done_with (parts @ [gap]))"

text \<open>
  The loop over the sorted matches with its variables \<open>parts\<close> and \<open>last_end\<close>, and the text
  after the last match. \<open>result[last_end:start]\<close> is empty when \<open>start \<le> last_end\<close>.
\<close>

fun build_parts :: "env \<Rightarrow> ustr \<Rightarrow> span list \<Rightarrow> nat \<Rightarrow> ustr list \<Rightarrow> ustr traced" where
  "build_parts E result [] last_end parts =
     and_then (append_gap E parts (drop last_end result)) (\<lambda>parts. done_with (concat parts))"
| "build_parts E result ((start, end', replacement) # matched_ranges) last_end parts =
     and_then (append_gap E parts (take (start - last_end) (drop last_end result)))
       (\<lambda>parts. build_parts E result matched_ranges end' (parts @ [replacement]))"

definition translate_with_dictionary :: "(ustr \<times> ustr) list \<Rightarrow> env \<Rightarrow> ustr \<Rightarrow> ustr traced" where
  "translate_with_dictionary D E chinese_text =
     (let result = chinese_text;
          matched_ranges = match_spans D result
      in if matched_ranges \<noteq> [] then build_parts E result matched_ranges 0 []
         else translate_remaining_chinese E result)"

section \<open>translate_name\<close>

text \<open>
  \<open>Path(name).suffix\<close> and \<open>Path(name).stem\<close> for a name that is one path component:
  with \<open>i\<close> the index of the last dot, the suffix is \<open>name[i:]\<close> when \<open>0 < i < len(name) - 1\<close>
  and empty otherwise, and the stem is the rest.
\<close>

definition rfind_dot :: "ustr \<Rightarrow> nat option" where
  "rfind_dot name =
     (if dot \<in> set name then Some (length name - Suc (length (takeWhile (\<lambda>c. c \<noteq> dot) (rev name))))
      else None)"

definition path_suffix :: "ustr \<Rightarrow> ustr" where
  "path_suffix name =
     (case rfind_dot name of
        None \<Rightarrow> []
      | Some i \<Rightarrow> if 0 < i \<and> Suc i < length name then drop i name else [])"

definition path_stem :: "ustr \<Rightarrow> ustr" where
  "path_stem name =
     (case rfind_dot name of
        None \<Rightarrow> name
      | Some i \<Rightarrow> if 0 < i \<and> Suc i < length name then take i name else name)"

definition translate_name :: "(ustr \<times> ustr) list \<Rightarrow> env \<Rightarrow> ustr \<Rightarrow> ustr traced" where
  "translate_name D E name =
     (if \<not> contains_chinese name then done_with name
      else
        let stem = (if path_suffix name \<noteq> [] then path_stem name else name);
            suffix = (if path_suffix name \<noteq> [] then path_suffix name else [])
        in and_then (translate_with_dictionary D E stem)
             (\<lambda>translated_stem. done_with (normalize translated_stem @ suffix)))"

section \<open>Predicates used in the statements\<close>

text \<open>\<open>sub\<close> occurs in \<open>s\<close> at offset \<open>idx\<close>.\<close>

definition occurs_at :: "ustr \<Rightarrow> ustr \<Rightarrow> nat \<Rightarrow> bool" where
  "occurs_at s sub idx = (idx + length sub \<le> length s \<and> take (length sub) (drop idx s) = sub)"

text \<open>The offsets a matched range covers, and its length.\<close>

fun span_offsets :: "span \<Rightarrow> nat set" where
  "span_offsets (start, end', replacement) = {start..<end'}"

fun span_length :: "span \<Rightarrow> nat" where
  "span_length (start, end', replacement) = end' - start"

text \<open>No two spans of the list share an offset.\<close>

definition pairwise_disjoint :: "span list \<Rightarrow> bool" where
  "pairwise_disjoint ms =
     (\<forall>i<length ms. \<forall>j<length ms. i \<noteq> j \<longrightarrow> span_offsets (ms ! i) \<inter> span_offsets (ms ! j) = {})"

definition apart :: "span \<Rightarrow> span \<Rightarrow> bool" where
  "apart a b = (span_offsets a \<inter> span_offsets b = {})"

text \<open>The characters of the names on which the theorems below are evaluated.\<close>

definition sample_chars :: ustr where
  "sample_chars = [0x9ED1, 0x96FE, 0x77E9, 0x9635, 0x7814, 0x7A76, 0x7AD9, 0x7164, 0x77FF, 0x963F]"

text \<open>
  The overlap test of the first pass, of a candidate range against one accepted span:
  \<open>not (end <= m_start or idx >= m_end)\<close>.
\<close>

fun span_clash :: "nat \<Rightarrow> nat \<Rightarrow> span \<Rightarrow> bool" where
  "span_clash idx end' (m_start, m_end, replacement) = (\<not> (end' \<le> m_start \<or> idx \<ge> m_end))"

section \<open>Properties of the clean-up\<close>

lemma py_strip_idem: "py_strip P (py_strip P s) = py_strip P s"
proof -
  define z where "z = dropWhile P s"
  define w where "w = dropWhile P (rev z)"
  have hz: "z = [] \<or> \<not> P (hd z)"
    unfolding z_def by (metis hd_dropWhile)
  have hw: "w = [] \<or> \<not> P (hd w)"
    unfolding w_def by (metis hd_dropWhile)
  have lw: "w \<noteq> [] \<Longrightarrow> last w = hd z"
  proof -
    assume ne: "w \<noteq> []"
    have "rev z = takeWhile P (rev z) @ w"
      unfolding w_def by simp
    then have "last (rev z) = last w"
      using ne by (metis last_appendR)
    moreover have "z \<noteq> []" using ne w_def by auto
    ultimately show "last w = hd z"
      by (simp add: last_rev)
  qed
  have "dropWhile P (rev w) = rev w"
  proof (cases "w = []")
    case True
    then show ?thesis by simp
  next
    case False
    then have "z \<noteq> []" using w_def by auto
    with hz have "\<not> P (hd z)" by simp
    with lw [OF False] have "\<not> P (hd (rev w))"
      using False by (simp add: hd_rev)
    then show ?thesis
      using False by (cases "rev w") auto
  qed
  moreover have "dropWhile P w = w"
    using hw by (cases w) auto
  ultimately show ?thesis
    by (simp add: py_strip_def z_def [symmetric] w_def [symmetric])
qed

text \<open>A string without two adjacent hyphens.\<close>

definition single_dashes :: "ustr \<Rightarrow> bool" where
  "single_dashes s = successively (\<lambda>a b. \<not> (is_dash a \<and> is_dash b)) s"

lemma re_sub_plus_dash_Cons:
  "re_sub_plus is_dash [dash] s = [] \<or> hd (re_sub_plus is_dash [dash] s) = hd s"
  by (cases s) (auto simp: is_dash_def)

lemma single_dashes_collapse: "single_dashes (re_sub_plus is_dash [dash] s)"
proof (induction is_dash "[dash]" s rule: re_sub_plus.induct)
  case 1
  then show ?case by (simp add: single_dashes_def)
next
  case (2 c cs)
  show ?case
  proof (cases "is_dash c")
    case True
    let ?r = "dropWhile is_dash cs"
    have ih: "single_dashes (re_sub_plus is_dash [dash] ?r)"
      using 2 True by simp
    have "re_sub_plus is_dash [dash] ?r = [] \<or> \<not> is_dash (hd (re_sub_plus is_dash [dash] ?r))"
    proof (cases "?r = []")
      case True
      then show ?thesis by (metis re_sub_plus.simps(1))
    next
      case False
      then have "\<not> is_dash (hd ?r)"
        by (metis hd_dropWhile)
      then show ?thesis
        using re_sub_plus_dash_Cons [of ?r] by metis
    qed
    moreover have "re_sub_plus is_dash [dash] (c # cs) = dash # re_sub_plus is_dash [dash] ?r"
      using True by simp
    ultimately show ?thesis
      using ih by (auto simp: single_dashes_def successively_Cons is_dash_def)
  next
    case False
    with 2 show ?thesis
      by (auto simp: single_dashes_def successively_Cons)
  qed
qed

lemma collapse_single_dashes: "single_dashes s \<Longrightarrow> re_sub_plus is_dash [dash] s = s"
proof (induction is_dash "[dash]" s rule: re_sub_plus.induct)
  case 1
  then show ?case by simp
next
  case (2 c cs)
  show ?case
  proof (cases "is_dash c")
    case True
    have tl: "single_dashes cs"
      using 2(3) by (auto simp: single_dashes_def successively_Cons)
    have "cs = [] \<or> \<not> is_dash (hd cs)"
      using 2(3) True by (auto simp: single_dashes_def successively_Cons)
    then have dw: "dropWhile is_dash cs = cs"
      by (cases cs) auto
    with 2(1) [OF True] tl True show ?thesis
      by (simp add: is_dash_def)
  next
    case False
    with 2 show ?thesis
      by (auto simp: single_dashes_def successively_Cons)
  qed
qed

lemma single_dashes_dropWhile: "single_dashes s \<Longrightarrow> single_dashes (dropWhile P s)"
  by (induction s) (auto simp: single_dashes_def successively_Cons)

lemma single_dashes_rev: "single_dashes (rev s) = single_dashes s"
proof -
  have "successively (\<lambda>x y. \<not> (is_dash y \<and> is_dash x)) s
        = successively (\<lambda>a b. \<not> (is_dash a \<and> is_dash b)) s"
    by (rule arg_cong [where f = "\<lambda>R. successively R s"]) (auto simp: fun_eq_iff)
  then show ?thesis
    by (simp add: single_dashes_def)
qed

lemma single_dashes_strip: "single_dashes s \<Longrightarrow> single_dashes (py_strip P s)"
  by (simp add: py_strip_def single_dashes_rev single_dashes_dropWhile)

text \<open>
  C6. The clean-up applied to the translated stem (every run of hyphens collapsed to one
  hyphen, then hyphens stripped at both ends) is idempotent: applying it twice gives the
  same string as applying it once, for every string.
\<close>

theorem normalize_idempotent: "normalize (normalize x) = normalize x"
proof -
  have "single_dashes (normalize x)"
    unfolding normalize_def by (rule single_dashes_strip) (rule single_dashes_collapse)
  then have "re_sub_plus is_dash [dash] (normalize x) = normalize x"
    by (rule collapse_single_dashes)
  then have "normalize (normalize x) = py_strip is_dash (normalize x)"
    by (simp add: normalize_def)
  also have "\<dots> = normalize x"
    by (simp add: normalize_def py_strip_idem)
  finally show ?thesis .
qed

section \<open>Properties of find and of the first pass\<close>

lemma py_find_Some_occurs: "py_find s sub start = Some idx \<Longrightarrow> start \<le> idx \<and> occurs_at s sub idx"
proof (induction s sub start rule: py_find.induct)
  case (1 s sub start)
  then show ?case
    by (subst (asm) (2) py_find.simps) (auto simp: occurs_at_def split: if_splits)
qed

lemma py_find_Some_least:
  "py_find s sub start = Some idx \<Longrightarrow> start \<le> j \<Longrightarrow> j < idx \<Longrightarrow> \<not> occurs_at s sub j"
proof (induction s sub start rule: py_find.induct)
  case (1 s sub start)
  show ?case
  proof (cases "length s < start + length sub")
    case True
    with 1(2) show ?thesis by (subst (asm) py_find.simps) simp
  next
    case False
    note nl = this
    show ?thesis
    proof (cases "take (length sub) (drop start s) = sub")
      case True
      with nl 1(2) have "idx = start" by (subst (asm) py_find.simps) simp
      with 1(3,4) show ?thesis by simp
    next
      case False
      with nl 1(2) have rec: "py_find s sub (Suc start) = Some idx"
        by (subst (asm) py_find.simps) simp
      show ?thesis
      proof (cases "j = start")
        case True
        with False show ?thesis by (simp add: occurs_at_def)
      next
        case False
        with 1(3) have "Suc start \<le> j" by simp
        from 1(1) [OF nl \<open>take (length sub) (drop start s) \<noteq> sub\<close> rec this 1(4)]
        show ?thesis .
      qed
    qed
  qed
qed

lemma py_find_None_no_occurrence:
  "py_find s sub start = None \<Longrightarrow> start \<le> j \<Longrightarrow> \<not> occurs_at s sub j"
proof (induction s sub start rule: py_find.induct)
  case (1 s sub start)
  show ?case
  proof (cases "length s < start + length sub")
    case True
    with 1(3) show ?thesis by (simp add: occurs_at_def)
  next
    case False
    note nl = this
    have ne: "take (length sub) (drop start s) \<noteq> sub"
      using nl 1(2) by (subst (asm) py_find.simps) (auto split: if_splits)
    with nl 1(2) have rec: "py_find s sub (Suc start) = None"
      by (subst (asm) py_find.simps) simp
    show ?thesis
    proof (cases "j = start")
      case True
      with ne show ?thesis by (simp add: occurs_at_def)
    next
      case False
      with 1(3) have "Suc start \<le> j" by simp
      from 1(1) [OF nl ne rec this] show ?thesis .
    qed
  qed
qed

lemma occurs_at_subset: "occurs_at s sub idx \<Longrightarrow> set sub \<subseteq> set s"
proof -
  assume "occurs_at s sub idx"
  then have "sub = take (length sub) (drop idx s)" by (simp add: occurs_at_def)
  then have "set sub \<subseteq> set (drop idx s)" by (metis set_take_subset)
  then show ?thesis using set_drop_subset by fast
qed

lemma apart_sym: "apart a b = apart b a"
  by (auto simp: apart_def)

lemma pairwise_disjoint_sorted_wrt: "pairwise_disjoint ms = sorted_wrt apart ms"
proof
  assume "pairwise_disjoint ms"
  then show "sorted_wrt apart ms"
    by (simp add: sorted_wrt_iff_nth_less pairwise_disjoint_def apart_def)
next
  assume a: "sorted_wrt apart ms"
  show "pairwise_disjoint ms"
    unfolding pairwise_disjoint_def
  proof (intro allI impI)
    fix i j assume ij: "i < length ms" "j < length ms" "i \<noteq> j"
    then consider "i < j" | "j < i" by linarith
    then show "span_offsets (ms ! i) \<inter> span_offsets (ms ! j) = {}"
    proof cases
      case 1
      with a ij have "apart (ms ! i) (ms ! j)" by (simp add: sorted_wrt_iff_nth_less)
      then show ?thesis by (simp add: apart_def)
    next
      case 2
      with a ij have "apart (ms ! j) (ms ! i)" by (simp add: sorted_wrt_iff_nth_less)
      then show ?thesis by (auto simp: apart_def)
    qed
  qed
qed

lemma overlaps_iff:
  "overlaps idx e ms = (\<exists>(a, b, r) \<in> set ms. \<not> (e \<le> a \<or> idx \<ge> b))"
  by (auto simp: overlaps_def list_ex_iff)

lemma not_overlaps_apart: "\<not> overlaps idx e ms \<Longrightarrow> m \<in> set ms \<Longrightarrow> apart m (idx, e, r)"
  by (cases m) (auto simp: overlaps_iff apart_def)

lemma sorted_wrt_apart_snoc:
  "sorted_wrt apart ms \<Longrightarrow> \<not> overlaps idx e ms \<Longrightarrow> sorted_wrt apart (ms @ [(idx, e, r)])"
  by (simp add: sorted_wrt_append not_overlaps_apart)

lemma scan_term_apart:
  "sorted_wrt apart ms \<Longrightarrow> sorted_wrt apart (scan_term s t r start ms)"
proof (induction s t r start ms rule: scan_term.induct)
  case (1 result t replacement start matched_ranges)
  show ?case
  proof (cases "py_find result t start")
    case None
    with 1(2) show ?thesis by (subst scan_term.simps) simp
  next
    case (Some idx)
    let ?m = "if overlaps idx (idx + length t) matched_ranges then matched_ranges
              else matched_ranges @ [(idx, idx + length t, replacement)]"
    have "sorted_wrt apart ?m"
      using 1(2) by (simp add: sorted_wrt_apart_snoc)
    from 1(1) [OF Some this] Some show ?thesis
      by (subst scan_term.simps) simp
  qed
qed

lemma first_pass_apart_gen:
  "sorted_wrt apart ms \<Longrightarrow>
   sorted_wrt apart (foldl (\<lambda>matched_ranges (t, r). scan_term s t r 0 matched_ranges) ms ts)"
  by (induction ts arbitrary: ms) (auto simp: scan_term_apart)

lemma sorted_wrt_apart_insort:
  "sorted_wrt apart (insort_key f x xs) = ((\<forall>y\<in>set xs. apart x y) \<and> sorted_wrt apart xs)"
  by (induction xs) (auto simp: set_insort_key intro: apart_sym [THEN iffD1])

lemma sorted_wrt_apart_sort: "sorted_wrt apart (sort_key f xs) = sorted_wrt apart xs"
  by (induction xs) (auto simp: sorted_wrt_apart_insort)

text \<open>
  C2. For every input string (and every dictionary), the match spans computed by
  \<open>translate_with_dictionary\<close> are pairwise non-overlapping, no two of them sharing an
  offset, and after the final sort they are in ascending order of their start offsets.
\<close>

theorem match_spans_disjoint_sorted:
  "pairwise_disjoint (match_spans D s) \<and> sorted (map fst (match_spans D s))"
proof
  have "sorted_wrt apart (first_pass D s)"
    unfolding first_pass_def by (rule first_pass_apart_gen) simp
  then show "pairwise_disjoint (match_spans D s)"
    by (simp add: pairwise_disjoint_sorted_wrt match_spans_def sorted_wrt_apart_sort)
next
  have "(\<lambda>(start, end', replacement). start) = (fst :: span \<Rightarrow> nat)"
    by (auto simp: fun_eq_iff)
  then show "sorted (map fst (match_spans D s))"
    by (simp add: match_spans_def)
qed

lemma scan_term_absent: "\<not> set t \<subseteq> set s \<Longrightarrow> scan_term s t r start ms = ms"
proof (cases "py_find s t start")
  case None
  then show ?thesis by (subst scan_term.simps) simp
next
  case (Some idx)
  assume "\<not> set t \<subseteq> set s"
  with py_find_Some_occurs [OF Some] occurs_at_subset show ?thesis by blast
qed

lemma sorted_terms_filter: "sorted_terms (filter P D) = filter P (sorted_terms D)"
proof -
  let ?f = "\<lambda>(term :: ustr, replacement :: ustr). length term"
  have "filter P (rev (sort_key ?f (rev D))) = rev (filter P (sort_key ?f (rev D)))"
    by (simp add: rev_filter)
  also have "\<dots> = rev (sort_key ?f (filter P (rev D)))"
    by (simp add: filter_sort)
  also have "\<dots> = rev (sort_key ?f (rev (filter P D)))"
    by (simp add: rev_filter)
  finally show ?thesis
    by (simp add: sorted_terms_def)
qed

lemma foldl_filter_skip:
  "(\<And>x m. \<not> P x \<Longrightarrow> g m x = m) \<Longrightarrow> foldl g m (filter P xs) = foldl g m xs"
  by (induction xs arbitrary: m) auto

text \<open>Only the terms whose characters all occur in the text can match.\<close>

lemma first_pass_relevant:
  assumes "set s \<subseteq> set A"
  shows "first_pass D s = first_pass (filter (\<lambda>(t, r). set t \<subseteq> set A) D) s"
  unfolding first_pass_def sorted_terms_filter
proof (rule foldl_filter_skip [symmetric])
  fix x :: "ustr \<times> ustr" and m :: "span list"
  assume "\<not> (case x of (t, r) \<Rightarrow> set t \<subseteq> set A)"
  then have "\<not> set (fst x) \<subseteq> set s"
    using assms by (cases x) auto
  then show "(case x of (t, r) \<Rightarrow> scan_term s t r 0 m) = m"
    by (cases x) (simp add: scan_term_absent)
qed

section \<open>What the first pass retains and what it rejects\<close>

lemma overlaps_clash: "overlaps idx e ms = (\<exists>m\<in>set ms. span_clash idx e m)"
proof -
  have "(\<lambda>(m_start, m_end, _). \<not> (e \<le> m_start \<or> idx \<ge> m_end)) = span_clash idx e"
    by (auto simp: fun_eq_iff)
  then show ?thesis
    by (simp add: overlaps_def list_ex_iff)
qed

lemma scan_term_mono: "set ms \<subseteq> set (scan_term s t r start ms)"
proof (induction s t r start ms rule: scan_term.induct)
  case (1 result t replacement start matched_ranges)
  show ?case
  proof (cases "py_find result t start")
    case None
    then show ?thesis by (subst scan_term.simps) simp
  next
    case (Some idx)
    from 1 [OF Some] Some show ?thesis
      by (subst scan_term.simps) (auto split: if_splits)
  qed
qed

lemma scan_term_lengths:
  "\<forall>m\<in>set ms. length t \<le> span_length m \<Longrightarrow>
   \<forall>m\<in>set (scan_term s t r start ms). length t \<le> span_length m"
proof (induction s t r start ms rule: scan_term.induct)
  case (1 result t replacement start matched_ranges)
  show ?case
  proof (cases "py_find result t start")
    case None
    with 1(2) show ?thesis by (subst scan_term.simps) simp
  next
    case (Some idx)
    let ?m = "if overlaps idx (idx + length t) matched_ranges then matched_ranges
              else matched_ranges @ [(idx, idx + length t, replacement)]"
    have "\<forall>m\<in>set ?m. length t \<le> span_length m"
      using 1(2) by auto
    from 1(1) [OF Some this] Some show ?thesis
      by (subst scan_term.simps) simp
  qed
qed

text \<open>
  Every occurrence of the term at or after the search position is, after the loop, either
  a recorded span or in conflict with a recorded span.
\<close>

lemma scan_term_complete:
  "start \<le> idx \<Longrightarrow> occurs_at s t idx \<Longrightarrow>
   (idx, idx + length t, r) \<in> set (scan_term s t r start ms)
   \<or> overlaps idx (idx + length t) (scan_term s t r start ms)"
proof (induction s t r start ms rule: scan_term.induct)
  case (1 result t replacement start matched_ranges)
  show ?case
  proof (cases "py_find result t start")
    case None
    from py_find_None_no_occurrence [OF None 1(2)] 1(3) show ?thesis by simp
  next
    case (Some i)
    let ?m = "if overlaps i (i + length t) matched_ranges then matched_ranges
              else matched_ranges @ [(i, i + length t, replacement)]"
    have unfold: "scan_term result t replacement start matched_ranges
                  = scan_term result t replacement (Suc i) ?m"
      using Some by (subst scan_term.simps) simp
    have "\<not> idx < i"
      using py_find_Some_least [OF Some 1(2)] 1(3) by blast
    then consider "idx = i" | "Suc i \<le> idx" by linarith
    then show ?thesis
    proof cases
      case 1
      have sub: "set ?m \<subseteq> set (scan_term result t replacement (Suc i) ?m)"
        by (rule scan_term_mono)
      show ?thesis
      proof (cases "overlaps i (i + length t) matched_ranges")
        case True
        then have "overlaps i (i + length t) (scan_term result t replacement (Suc i) ?m)"
          using sub by (auto simp: overlaps_clash)
        with 1 unfold show ?thesis by simp
      next
        case False
        then have "(i, i + length t, replacement) \<in> set ?m" by simp
        with sub have "(i, i + length t, replacement) \<in> set (scan_term result t replacement (Suc i) ?m)"
          by blast
        with 1 unfold show ?thesis by simp
      qed
    next
      case 2
      from "1.IH" [OF Some 2 "1.prems"(2)] unfold show ?thesis by simp
    qed
  qed
qed

lemma first_pass_mono_gen:
  "set ms \<subseteq> set (foldl (\<lambda>matched_ranges (t, r). scan_term s t r 0 matched_ranges) ms ts)"
proof (induction ts arbitrary: ms)
  case Nil
  then show ?case by simp
next
  case (Cons a ts)
  obtain t r where a: "a = (t, r)" by (cases a)
  have "set ms \<subseteq> set (scan_term s t r 0 ms)" by (rule scan_term_mono)
  also have "\<dots> \<subseteq> set (foldl (\<lambda>matched_ranges (t, r). scan_term s t r 0 matched_ranges)
                          (scan_term s t r 0 ms) ts)"
    by (rule Cons.IH)
  finally show ?case by (simp add: a)
qed

lemma first_pass_complete_gen:
  assumes "sorted_wrt (\<lambda>a b. length (fst b) \<le> length (fst a)) ts"
    and "\<forall>m\<in>set ms. \<forall>(t', r')\<in>set ts. length t' \<le> span_length m"
    and "(t, r) \<in> set ts" and "occurs_at s t idx"
  shows "(idx, idx + length t, r) \<in> set (foldl (\<lambda>matched_ranges (t, r). scan_term s t r 0 matched_ranges) ms ts)
         \<or> (\<exists>m\<in>set (foldl (\<lambda>matched_ranges (t, r). scan_term s t r 0 matched_ranges) ms ts).
               span_clash idx (idx + length t) m \<and> length t \<le> span_length m)"
  using assms
proof (induction ts arbitrary: ms)
  case Nil
  then show ?case by simp
next
  case (Cons a ts)
  obtain t0 r0 where a: "a = (t0, r0)" by (cases a)
  let ?ms1 = "scan_term s t0 r0 0 ms"
  let ?R = "foldl (\<lambda>matched_ranges (t, r). scan_term s t r 0 matched_ranges) ?ms1 ts"
  have R: "foldl (\<lambda>matched_ranges (t, r). scan_term s t r 0 matched_ranges) ms (a # ts) = ?R"
    by (simp add: a)
  have sub: "set ?ms1 \<subseteq> set ?R" by (rule first_pass_mono_gen)
  have len1: "\<forall>m\<in>set ?ms1. length t0 \<le> span_length m"
    using Cons.prems(2) by (intro scan_term_lengths) (auto simp: a)
  show ?case
  proof (cases "(t, r) = (t0, r0)")
    case True
    then have eq: "t = t0" "r = r0" by simp_all
    from scan_term_complete [of 0 idx s t0 r0 ms] Cons.prems(4)
    have "(idx, idx + length t0, r0) \<in> set ?ms1 \<or> overlaps idx (idx + length t0) ?ms1"
      by (simp add: eq)
    then show ?thesis
    proof
      assume "(idx, idx + length t0, r0) \<in> set ?ms1"
      with sub show ?thesis unfolding R eq by blast
    next
      assume "overlaps idx (idx + length t0) ?ms1"
      then obtain m where "m \<in> set ?ms1" "span_clash idx (idx + length t0) m"
        by (auto simp: overlaps_clash)
      with len1 sub show ?thesis unfolding R eq by blast
    qed
  next
    case False
    with Cons.prems(3) have mem: "(t, r) \<in> set ts" by (auto simp: a)
    have desc: "sorted_wrt (\<lambda>a b. length (fst b) \<le> length (fst a)) ts"
      using Cons.prems(1) by simp
    have "\<forall>x\<in>set ts. length (fst x) \<le> length t0"
      using Cons.prems(1) by (simp add: a)
    with len1 have pre: "\<forall>m\<in>set ?ms1. \<forall>(t', r')\<in>set ts. length t' \<le> span_length m"
      by fastforce
    from Cons.IH [OF desc pre mem Cons.prems(4)] show ?thesis unfolding R .
  qed
qed

lemma sorted_terms_descending:
  "sorted_wrt (\<lambda>a b. length (fst b) \<le> length (fst a)) (sorted_terms D)"
proof -
  let ?f = "\<lambda>(term :: ustr, replacement :: ustr). length term"
  have "sorted (map ?f (sort_key ?f (rev D)))" by simp
  then have "sorted_wrt (\<lambda>a b. ?f a \<le> ?f b) (sort_key ?f (rev D))"
    by (simp add: sorted_map)
  then have "sorted_wrt (\<lambda>a b. ?f b \<le> ?f a) (rev (sort_key ?f (rev D)))"
    by (simp add: sorted_wrt_rev)
  moreover have "(\<lambda>a b. ?f b \<le> ?f a) = (\<lambda>a b. length (fst b) \<le> length (fst a))"
    by (auto simp: fun_eq_iff)
  ultimately show ?thesis by (simp add: sorted_terms_def)
qed

lemma set_sorted_terms: "set (sorted_terms D) = set D"
  by (simp add: sorted_terms_def)

lemma apart_distinct_members:
  assumes "sorted_wrt apart ms" and "a \<in> set ms" and "b \<in> set ms" and "a \<noteq> b"
  shows "apart a b"
proof -
  from assms(2,3) obtain i j where ij: "i < length ms" "ms ! i = a" "j < length ms" "ms ! j = b"
    by (auto simp: in_set_conv_nth)
  with assms(4) have "i \<noteq> j" by auto
  then consider "i < j" | "j < i" by linarith
  then show ?thesis
  proof cases
    case 1
    with assms(1) ij show ?thesis by (auto simp: sorted_wrt_iff_nth_less)
  next
    case 2
    with assms(1) ij have "apart b a" by (auto simp: sorted_wrt_iff_nth_less)
    then show ?thesis by (simp add: apart_sym)
  qed
qed

text \<open>
  C1, as amended. For every input string and every dictionary (the fixed one included):
  when two dictionary terms have overlapping occurrences in the string, the longer term's
  occurrence is retained in the match set unless it conflicts with a retained span that is
  at least as long as the term, and whenever the longer term's occurrence is retained the
  shorter term's occurrence is rejected.
\<close>

theorem longer_term_wins_unless_blocked:
  assumes "(t1, r1) \<in> set D" and "(t2, r2) \<in> set D"
    and "occurs_at s t1 i1" and "occurs_at s t2 i2"
    and "length t2 < length t1" and "t2 \<noteq> []"
    and "i1 < i2 + length t2" and "i2 < i1 + length t1"
  shows "((i1, i1 + length t1, r1) \<in> set (match_spans D s)
          \<or> (\<exists>m\<in>set (match_spans D s). span_clash i1 (i1 + length t1) m \<and> length t1 \<le> span_length m))
         \<and> ((i1, i1 + length t1, r1) \<in> set (match_spans D s)
              \<longrightarrow> (i2, i2 + length t2, r2) \<notin> set (match_spans D s))"
proof
  have set_eq: "set (match_spans D s) = set (first_pass D s)"
    by (simp add: match_spans_def)
  have "(t1, r1) \<in> set (sorted_terms D)"
    using assms(1) by (simp add: set_sorted_terms)
  from first_pass_complete_gen [OF sorted_terms_descending _ this assms(3), of "[]"]
  show "(i1, i1 + length t1, r1) \<in> set (match_spans D s)
        \<or> (\<exists>m\<in>set (match_spans D s). span_clash i1 (i1 + length t1) m \<and> length t1 \<le> span_length m)"
    unfolding set_eq first_pass_def by simp
next
  show "(i1, i1 + length t1, r1) \<in> set (match_spans D s)
        \<longrightarrow> (i2, i2 + length t2, r2) \<notin> set (match_spans D s)"
  proof (intro impI notI)
    assume a: "(i1, i1 + length t1, r1) \<in> set (match_spans D s)"
      and b: "(i2, i2 + length t2, r2) \<in> set (match_spans D s)"
    have ne: "(i1, i1 + length t1, r1) \<noteq> (i2, i2 + length t2, r2)"
      using assms(5) by auto
    have "sorted_wrt apart (match_spans D s)"
      using match_spans_disjoint_sorted [of D s] by (simp add: pairwise_disjoint_sorted_wrt)
    from apart_distinct_members [OF this a b ne]
    have "{i1..<i1 + length t1} \<inter> {i2..<i2 + length t2} = {}"
      by (simp add: apart_def)
    moreover have "max i1 i2 \<in> {i1..<i1 + length t1} \<inter> {i2..<i2 + length t2}"
      using assms(5,6,7,8) by (cases t2) auto
    ultimately show False by blast
  qed
qed

section \<open>The matcher on concrete names\<close>

lemma relevant_sections:
  "filter (\<lambda>(t, r). set t \<subseteq> set sample_chars) natural_resources_1 = [([0x7164, 0x77FF], ascii ''Coal''), ([0x7164], ascii ''Coal'')]"
  "filter (\<lambda>(t, r). set t \<subseteq> set sample_chars) natural_resources_2 = []"
  "filter (\<lambda>(t, r). set t \<subseteq> set sample_chars) natural_resources_3 = []"
  "filter (\<lambda>(t, r). set t \<subseteq> set sample_chars) intermediate_products_1 = []"
  "filter (\<lambda>(t, r). set t \<subseteq> set sample_chars) intermediate_products_2 = []"
  "filter (\<lambda>(t, r). set t \<subseteq> set sample_chars) intermediate_products_3 = []"
  "filter (\<lambda>(t, r). set t \<subseteq> set sample_chars) intermediate_products_4 = []"
  "filter (\<lambda>(t, r). set t \<subseteq> set sample_chars) proliferators = []"
  "filter (\<lambda>(t, r). set t \<subseteq> set sample_chars) logistics_items = []"
  "filter (\<lambda>(t, r). set t \<subseteq> set sample_chars) dyson_sphere_components = []"
  "filter (\<lambda>(t, r). set t \<subseteq> set sample_chars) fuel_rods = []"
  "filter (\<lambda>(t, r). set t \<subseteq> set sample_chars) science_matrices_1 = [([0x9ED1, 0x96FE, 0x77E9, 0x9635], ascii ''Dark-Fog-Matrix''), ([0x77E9, 0x9635], ascii ''Matrix'')]"
  "filter (\<lambda>(t, r). set t \<subseteq> set sample_chars) science_matrices_2 = []"
  "filter (\<lambda>(t, r). set t \<subseteq> set sample_chars) power_buildings_1 = []"
  "filter (\<lambda>(t, r). set t \<subseteq> set sample_chars) power_buildings_2 = []"
  "filter (\<lambda>(t, r). set t \<subseteq> set sample_chars) power_buildings_3 = []"
  "filter (\<lambda>(t, r). set t \<subseteq> set sample_chars) logistics_buildings_1 = []"
  "filter (\<lambda>(t, r). set t \<subseteq> set sample_chars) logistics_buildings_2 = []"
  "filter (\<lambda>(t, r). set t \<subseteq> set sample_chars) resource_extraction = []"
  "filter (\<lambda>(t, r). set t \<subseteq> set sample_chars) production_buildings_1 = [([0x77E9, 0x9635, 0x7814, 0x7A76, 0x7AD9], ascii ''Matrix-Lab'')]"
  "filter (\<lambda>(t, r). set t \<subseteq> set sample_chars) production_buildings_2 = [([0x7814, 0x7A76, 0x7AD9], ascii ''Lab'')]"
  "filter (\<lambda>(t, r). set t \<subseteq> set sample_chars) military_buildings_1 = []"
  "filter (\<lambda>(t, r). set t \<subseteq> set sample_chars) military_buildings_2 = [([0x9ED1, 0x96FE], ascii ''Dark-Fog'')]"
  "filter (\<lambda>(t, r). set t \<subseteq> set sample_chars) game_terms_1 = []"
  "filter (\<lambda>(t, r). set t \<subseteq> set sample_chars) game_terms_2 = []"
  "filter (\<lambda>(t, r). set t \<subseteq> set sample_chars) game_terms_3 = []"
  "filter (\<lambda>(t, r). set t \<subseteq> set sample_chars) game_terms_4 = []"
  "filter (\<lambda>(t, r). set t \<subseteq> set sample_chars) game_terms_5 = []"
  by (simp_all add: DSP_sections sample_chars_def)

lemma relevant_DSP:
  "filter (\<lambda>(t, r). set t \<subseteq> set sample_chars) DSP_DICTIONARY =
     [([0x7164, 0x77FF], ascii ''Coal''),
      ([0x7164], ascii ''Coal''),
      ([0x9ED1, 0x96FE, 0x77E9, 0x9635], ascii ''Dark-Fog-Matrix''),
      ([0x77E9, 0x9635], ascii ''Matrix''),
      ([0x77E9, 0x9635, 0x7814, 0x7A76, 0x7AD9], ascii ''Matrix-Lab''),
      ([0x7814, 0x7A76, 0x7AD9], ascii ''Lab''),
      ([0x9ED1, 0x96FE], ascii ''Dark-Fog'')]"
  by (simp add: DSP_DICTIONARY_def relevant_sections)


lemma first_pass_sample:
  "set s \<subseteq> set sample_chars \<Longrightarrow>
   first_pass DSP_DICTIONARY s =
   first_pass [([0x7164, 0x77FF], ascii ''Coal''), ([0x7164], ascii ''Coal''),
      ([0x9ED1, 0x96FE, 0x77E9, 0x9635], ascii ''Dark-Fog-Matrix''),
      ([0x77E9, 0x9635], ascii ''Matrix''),
      ([0x77E9, 0x9635, 0x7814, 0x7A76, 0x7AD9], ascii ''Matrix-Lab''),
      ([0x7814, 0x7A76, 0x7AD9], ascii ''Lab''),
      ([0x9ED1, 0x96FE], ascii ''Dark-Fog'')] s"
  using first_pass_relevant [of s sample_chars DSP_DICTIONARY] by (simp add: relevant_DSP)

lemma sorted_terms_sample:
  "sorted_terms [([0x7164, 0x77FF], ascii ''Coal''), ([0x7164], ascii ''Coal''),
      ([0x9ED1, 0x96FE, 0x77E9, 0x9635], ascii ''Dark-Fog-Matrix''),
      ([0x77E9, 0x9635], ascii ''Matrix''),
      ([0x77E9, 0x9635, 0x7814, 0x7A76, 0x7AD9], ascii ''Matrix-Lab''),
      ([0x7814, 0x7A76, 0x7AD9], ascii ''Lab''),
      ([0x9ED1, 0x96FE], ascii ''Dark-Fog'')]
   = [([0x77E9, 0x9635, 0x7814, 0x7A76, 0x7AD9], ascii ''Matrix-Lab''),
      ([0x9ED1, 0x96FE, 0x77E9, 0x9635], ascii ''Dark-Fog-Matrix''),
      ([0x7814, 0x7A76, 0x7AD9], ascii ''Lab''),
      ([0x7164, 0x77FF], ascii ''Coal''),
      ([0x77E9, 0x9635], ascii ''Matrix''),
      ([0x9ED1, 0x96FE], ascii ''Dark-Fog''),
      ([0x7164], ascii ''Coal'')]"
  by (simp add: sorted_terms_def)

text \<open>
  The name of seven characters U+9ED1 U+96FE U+77E9 U+9635 U+7814 U+7A76 U+7AD9: the
  dictionary terms for Dark-Fog-Matrix (its first four characters) and for Matrix-Lab (its
  last five) meet in the two characters of Matrix.
\<close>

lemma match_spans_dark_fog_lab:
  "match_spans DSP_DICTIONARY [0x9ED1, 0x96FE, 0x77E9, 0x9635, 0x7814, 0x7A76, 0x7AD9]
   = [(0, 2, ascii ''Dark-Fog''), (2, 7, ascii ''Matrix-Lab'')]"
proof -
  have "set [0x9ED1, 0x96FE, 0x77E9, 0x9635, 0x7814, 0x7A76, 0x7AD9] \<subseteq> set sample_chars"
    by (simp add: sample_chars_def)
  then show ?thesis
    unfolding match_spans_def
    by (simp add: first_pass_sample)
       (simp add: first_pass_def sorted_terms_sample scan_term.simps py_find.simps overlaps_def)
qed

text \<open>
  Witness for C2: on the name above the theorem gives two disjoint spans in ascending order.
\<close>

theorem match_spans_disjoint_sorted_witness:
  "match_spans DSP_DICTIONARY [0x9ED1, 0x96FE, 0x77E9, 0x9635, 0x7814, 0x7A76, 0x7AD9]
     = [(0, 2, ascii ''Dark-Fog''), (2, 7, ascii ''Matrix-Lab'')]
   \<and> pairwise_disjoint (match_spans DSP_DICTIONARY [0x9ED1, 0x96FE, 0x77E9, 0x9635, 0x7814, 0x7A76, 0x7AD9])
   \<and> sorted (map fst (match_spans DSP_DICTIONARY [0x9ED1, 0x96FE, 0x77E9, 0x9635, 0x7814, 0x7A76, 0x7AD9]))"
  using match_spans_disjoint_sorted [of DSP_DICTIONARY "[0x9ED1, 0x96FE, 0x77E9, 0x9635, 0x7814, 0x7A76, 0x7AD9]"]
        match_spans_dark_fog_lab
  by simp

text \<open>
  Counterexample to C1 as stated: in the name above the term for Dark-Fog-Matrix (four
  characters, at offset 0) and the term for Dark-Fog (two characters, at offset 0) are
  dictionary terms with overlapping occurrences, and the match set rejects the longer one
  and retains the shorter one, because the longer one overlaps the still longer Matrix-Lab.
\<close>

theorem longer_term_wins_counterexample:
  "([0x9ED1, 0x96FE, 0x77E9, 0x9635], ascii ''Dark-Fog-Matrix'') \<in> set DSP_DICTIONARY
   \<and> ([0x9ED1, 0x96FE], ascii ''Dark-Fog'') \<in> set DSP_DICTIONARY
   \<and> occurs_at [0x9ED1, 0x96FE, 0x77E9, 0x9635, 0x7814, 0x7A76, 0x7AD9] [0x9ED1, 0x96FE, 0x77E9, 0x9635] 0
   \<and> occurs_at [0x9ED1, 0x96FE, 0x77E9, 0x9635, 0x7814, 0x7A76, 0x7AD9] [0x9ED1, 0x96FE] 0
   \<and> (0, 4, ascii ''Dark-Fog-Matrix'')
       \<notin> set (match_spans DSP_DICTIONARY [0x9ED1, 0x96FE, 0x77E9, 0x9635, 0x7814, 0x7A76, 0x7AD9])
   \<and> (0, 2, ascii ''Dark-Fog'')
       \<in> set (match_spans DSP_DICTIONARY [0x9ED1, 0x96FE, 0x77E9, 0x9635, 0x7814, 0x7A76, 0x7AD9])"
proof -
  let ?rel = "filter (\<lambda>(t, r). set t \<subseteq> set sample_chars) DSP_DICTIONARY"
  have "([0x9ED1, 0x96FE, 0x77E9, 0x9635], ascii ''Dark-Fog-Matrix'') \<in> set ?rel"
    unfolding relevant_DSP by simp
  then have a: "([0x9ED1, 0x96FE, 0x77E9, 0x9635], ascii ''Dark-Fog-Matrix'') \<in> set DSP_DICTIONARY"
    by simp
  have "([0x9ED1, 0x96FE], ascii ''Dark-Fog'') \<in> set ?rel"
    unfolding relevant_DSP by simp
  then have b: "([0x9ED1, 0x96FE], ascii ''Dark-Fog'') \<in> set DSP_DICTIONARY"
    by simp
  have c: "(0, 4, ascii ''Dark-Fog-Matrix'')
       \<notin> set (match_spans DSP_DICTIONARY [0x9ED1, 0x96FE, 0x77E9, 0x9635, 0x7814, 0x7A76, 0x7AD9])"
    unfolding match_spans_dark_fog_lab by simp
  have d: "(0, 2, ascii ''Dark-Fog'')
       \<in> set (match_spans DSP_DICTIONARY [0x9ED1, 0x96FE, 0x77E9, 0x9635, 0x7814, 0x7A76, 0x7AD9])"
    unfolding match_spans_dark_fog_lab by simp
  have e: "occurs_at [0x9ED1, 0x96FE, 0x77E9, 0x9635, 0x7814, 0x7A76, 0x7AD9] [0x9ED1, 0x96FE, 0x77E9, 0x9635] 0"
    by (simp add: occurs_at_def)
  have f: "occurs_at [0x9ED1, 0x96FE, 0x77E9, 0x9635, 0x7814, 0x7A76, 0x7AD9] [0x9ED1, 0x96FE] 0"
    by (simp add: occurs_at_def)
  show ?thesis by (intro conjI a b c d e f)
qed

text \<open>
  Witness for the amended C1: in the name above, Matrix-Lab (offsets 2 to 7) and Matrix
  (offsets 2 to 4) overlap; the longer one is retained and the shorter one rejected.
\<close>

theorem longer_term_wins_unless_blocked_witness:
  "(([0x77E9, 0x9635, 0x7814, 0x7A76, 0x7AD9], ascii ''Matrix-Lab'') \<in> set DSP_DICTIONARY
    \<and> ([0x77E9, 0x9635], ascii ''Matrix'') \<in> set DSP_DICTIONARY
    \<and> occurs_at [0x9ED1, 0x96FE, 0x77E9, 0x9635, 0x7814, 0x7A76, 0x7AD9] [0x77E9, 0x9635, 0x7814, 0x7A76, 0x7AD9] 2
    \<and> occurs_at [0x9ED1, 0x96FE, 0x77E9, 0x9635, 0x7814, 0x7A76, 0x7AD9] [0x77E9, 0x9635] 2)
   \<and> (2, 7, ascii ''Matrix-Lab'')
       \<in> set (match_spans DSP_DICTIONARY [0x9ED1, 0x96FE, 0x77E9, 0x9635, 0x7814, 0x7A76, 0x7AD9])
   \<and> (2, 4, ascii ''Matrix'')
       \<notin> set (match_spans DSP_DICTIONARY [0x9ED1, 0x96FE, 0x77E9, 0x9635, 0x7814, 0x7A76, 0x7AD9])"
proof -
  let ?s = "[0x9ED1, 0x96FE, 0x77E9, 0x9635, 0x7814, 0x7A76, 0x7AD9] :: ustr"
  let ?t1 = "[0x77E9, 0x9635, 0x7814, 0x7A76, 0x7AD9] :: ustr"
  let ?t2 = "[0x77E9, 0x9635] :: ustr"
  let ?rel = "filter (\<lambda>(t, r). set t \<subseteq> set sample_chars) DSP_DICTIONARY"
  have "(?t1, ascii ''Matrix-Lab'') \<in> set ?rel"
    unfolding relevant_DSP by simp
  then have a: "(?t1, ascii ''Matrix-Lab'') \<in> set DSP_DICTIONARY"
    by simp
  have "(?t2, ascii ''Matrix'') \<in> set ?rel"
    unfolding relevant_DSP by simp
  then have b: "(?t2, ascii ''Matrix'') \<in> set DSP_DICTIONARY"
    by simp
  have c: "occurs_at ?s ?t1 2"
    by (simp add: occurs_at_def)
  have d: "occurs_at ?s ?t2 2"
    by (simp add: occurs_at_def)
  have e: "length ?t2 < length ?t1" "?t2 \<noteq> []" "(2::nat) < 2 + length ?t2" "(2::nat) < 2 + length ?t1"
    by simp_all
  note th = longer_term_wins_unless_blocked [OF a b c d e]
  have "(2, 2 + length ?t1, ascii ''Matrix-Lab'') \<in> set (match_spans DSP_DICTIONARY ?s)"
    unfolding match_spans_dark_fog_lab by simp
  from th [THEN conjunct2, THEN mp, OF this]
  have f: "(2, 4, ascii ''Matrix'') \<notin> set (match_spans DSP_DICTIONARY ?s)"
    by simp
  have g: "(2, 7, ascii ''Matrix-Lab'') \<in> set (match_spans DSP_DICTIONARY ?s)"
    unfolding match_spans_dark_fog_lab by simp
  show ?thesis
    by (intro conjI a b c d f g)
qed

end
